theory Spec2Isabelle
  imports Complex_Main
begin

section \<open>Posterior summary of the fitted Beta distribution\<close>

text \<open>
  The two working notebooks end the Bernoulli example with the same three assignments:
  \<^verbatim>\<open>
  inferred_mean = alpha_q / (alpha_q + beta_q)
  factor = beta_q / (alpha_q * (1.0 + alpha_q + beta_q))
  inferred_std = inferred_mean * math.sqrt(factor)
  \<close>
  The assignments are read twice. \<open>inferred_mean\<close>, \<open>factor\<close> and
  \<open>inferred_std\<close> read Python's floats as real numbers and its operations as exact;
  \<open>inferred_mean_f64\<close>, \<open>factor_f64\<close> and \<open>inferred_std_f64\<close> further down round
  every operation as double precision does. What Python raises is kept in both: a float
  division by zero raises \<open>ZeroDivisionError\<close>, \<open>math.sqrt\<close> of a negative number
  raises \<open>ValueError\<close>, and reading a parameter that the store does not hold raises
  \<open>KeyError\<close>. \<open>NameMismatch\<close> is not raised anywhere in the notebooks: it is the
  error that the specification names for a guide whose latent names differ from the
  model's (section 7), and it is here for the construction of the inference object, which
  belongs to the library.
\<close>

datatype exn = ZeroDivisionError | ValueError | KeyError | NameMismatch

definition truediv :: "real \<Rightarrow> real \<Rightarrow> exn + real" where
  "truediv x y = (if y = 0 then Inl ZeroDivisionError else Inr (x / y))"

definition math_sqrt :: "real \<Rightarrow> exn + real" where
  "math_sqrt x = (if x < 0 then Inl ValueError else Inr (sqrt x))"

definition inferred_mean :: "real \<Rightarrow> real \<Rightarrow> exn + real" where
  "inferred_mean alpha_q beta_q = truediv alpha_q (alpha_q + beta_q)"

definition factor :: "real \<Rightarrow> real \<Rightarrow> exn + real" where
  "factor alpha_q beta_q = truediv beta_q (alpha_q * (1 + alpha_q + beta_q))"

definition inferred_std :: "real \<Rightarrow> real \<Rightarrow> exn + real" where
  "inferred_std alpha_q beta_q =
     (case inferred_mean alpha_q beta_q of
        Inl e \<Rightarrow> Inl e
      | Inr m \<Rightarrow>
          (case factor alpha_q beta_q of
             Inl e \<Rightarrow> Inl e
           | Inr f \<Rightarrow>
               (case math_sqrt f of
                  Inl e \<Rightarrow> Inl e
                | Inr r \<Rightarrow> Inr (m * r))))"

subsection \<open>The summary in double precision\<close>

text \<open>
  A Python float is an IEEE 754 double: 53 significant bits, and every operation returns
  the exact result rounded to the nearest double, a tie going to the even significand.
  \<open>float64\<close> is that rounding. The exponent is not bounded in it, so it is the
  machine's rounding for exact results whose magnitude is in the normal range, from
  \<open>pow2 (- 1022)\<close> up to \<open>pow2 1024\<close>, where a double neither overflows nor becomes
  subnormal; \<open>pow2 k\<close> is the \<open>k\<close>-th power of two. \<open>rounds_normally\<close> says of
  two inputs that every exact result that the summary rounds lies in that range. The
  parameters that the notebooks summarize are read from float32 tensors, so they lie
  between \<open>pow2 (- 149)\<close> and \<open>pow2 128\<close>.
\<close>

definition pow2 :: "int \<Rightarrow> real" where
  "pow2 k = 2 powr of_int k"

definition round_half_even :: "real \<Rightarrow> int" where
  "round_half_even q =
     (if q - of_int \<lfloor>q\<rfloor> < 1 / 2 then \<lfloor>q\<rfloor>
      else if 1 / 2 < q - of_int \<lfloor>q\<rfloor> then \<lfloor>q\<rfloor> + 1
      else if even \<lfloor>q\<rfloor> then \<lfloor>q\<rfloor> else \<lfloor>q\<rfloor> + 1)"

definition exponent :: "real \<Rightarrow> int" where
  "exponent x = \<lfloor>log 2 x\<rfloor>"

definition ulp :: "real \<Rightarrow> real" where
  "ulp x = 2 powr (of_int (exponent x) - 52)"

definition float64 :: "real \<Rightarrow> real" where
  "float64 x =
     (if x = 0 then 0
      else sgn x * of_int (round_half_even (\<bar>x\<bar> / ulp \<bar>x\<bar>)) * ulp \<bar>x\<bar>)"

definition normal :: "real \<Rightarrow> bool" where
  "normal x \<longleftrightarrow> pow2 (- 1022) \<le> x \<and> x < pow2 1024"

definition fadd :: "real \<Rightarrow> real \<Rightarrow> real" where
  "fadd x y = float64 (x + y)"

definition fmul :: "real \<Rightarrow> real \<Rightarrow> real" where
  "fmul x y = float64 (x * y)"

definition fdiv :: "real \<Rightarrow> real \<Rightarrow> exn + real" where
  "fdiv x y = (if y = 0 then Inl ZeroDivisionError else Inr (float64 (x / y)))"

definition fsqrt :: "real \<Rightarrow> exn + real" where
  "fsqrt x = (if x < 0 then Inl ValueError else Inr (float64 (sqrt x)))"

definition inferred_mean_f64 :: "real \<Rightarrow> real \<Rightarrow> exn + real" where
  "inferred_mean_f64 alpha_q beta_q = fdiv alpha_q (fadd alpha_q beta_q)"

definition factor_f64 :: "real \<Rightarrow> real \<Rightarrow> exn + real" where
  "factor_f64 alpha_q beta_q =
     fdiv beta_q (fmul alpha_q (fadd (fadd 1 alpha_q) beta_q))"

definition inferred_std_f64 :: "real \<Rightarrow> real \<Rightarrow> exn + real" where
  "inferred_std_f64 alpha_q beta_q =
     (case inferred_mean_f64 alpha_q beta_q of
        Inl e \<Rightarrow> Inl e
      | Inr m \<Rightarrow>
          (case factor_f64 alpha_q beta_q of
             Inl e \<Rightarrow> Inl e
           | Inr f \<Rightarrow>
               (case fsqrt f of
                  Inl e \<Rightarrow> Inl e
                | Inr r \<Rightarrow> Inr (fmul m r))))"

definition rounds_normally :: "real \<Rightarrow> real \<Rightarrow> bool" where
  "rounds_normally a b \<longleftrightarrow>
     normal (a + b)
     \<and> normal (a / fadd a b)
     \<and> normal (1 + a)
     \<and> normal (fadd 1 a + b)
     \<and> normal (a * fadd (fadd 1 a) b)
     \<and> normal (b / fmul a (fadd (fadd 1 a) b))
     \<and> normal (sqrt (float64 (b / fmul a (fadd (fadd 1 a) b))))
     \<and> normal (float64 (a / fadd a b)
               * float64 (sqrt (float64 (b / fmul a (fadd (fadd 1 a) b)))))"

section \<open>The training loop\<close>

text \<open>
  Both notebooks train with the same loop:
  \<^verbatim>\<open>
  losses = []
  for step in range(n_steps):
      losses += [svi.step(data)]
      if step % 100 == 0:
          print('.', end='')
  \<close>
  The loop is a left fold over \<open>range(n_steps)\<close>. Its state is the state that
  \<open>svi.step\<close> works on, the list \<open>losses\<close> and what has been printed. The call
  \<open>svi.step(data)\<close> is a parameter of the loop, \<open>do_step\<close>: a function from the
  state before the call to the loss it returns and the state after it. The loop body has no \<open>break\<close>,
  no \<open>return\<close> and no \<open>raise\<close>.
\<close>

definition range_py :: "int \<Rightarrow> int list" where
  "range_py n = [0..n - 1]"

record 's cell =
  runtime :: 's
  losses :: "real list"
  stdout :: string

definition loop_body :: "('s \<Rightarrow> real \<times> 's) \<Rightarrow> 's cell \<Rightarrow> int \<Rightarrow> 's cell" where
  "loop_body do_step c step =
     (case do_step (runtime c) of
        (loss, s') \<Rightarrow>
          \<lparr>runtime = s',
           losses = losses c @ [loss],
           stdout = (if step mod 100 = 0 then stdout c @ ''.'' else stdout c)\<rparr>)"

definition training_loop :: "('s \<Rightarrow> real \<times> 's) \<Rightarrow> int \<Rightarrow> 's \<Rightarrow> 's cell" where
  "training_loop do_step n_steps s =
     foldl (loop_body do_step) \<lparr>runtime = s, losses = [], stdout = []\<rparr> (range_py n_steps)"

section \<open>Model and guide as programs over named sites\<close>

text \<open>
  The model and the guide are Python functions whose bodies are calls of
  \<open>pyro.param\<close>, \<open>pyro.sample\<close> and \<open>pyro.plate\<close>. They are embedded as terms of
  a small program type with one constructor for each call; a value that a call returns
  is passed to the rest of the function.
  \<^verbatim>\<open>
  def model(data):
      alpha0 = torch.tensor(10.)
      beta0 = torch.tensor(10.)
      f = pyro.sample("nu", dist.Beta(alpha0, beta0))
      with pyro.plate('data', len(data)):
          pyro.sample('obs', dist.Bernoulli(f), obs=data)

  def guide(data):
      alpha_q = pyro.param("alpha_q", torch.tensor(10.),
                           constraint=constraints.positive)
      beta_q = pyro.param("beta_q", torch.tensor(10.),
                          constraint=constraints.positive)
      pyro.sample("nu", dist.Beta(alpha_q, beta_q))
  \<close>
  The two notebooks differ in the constants only (prior \<open>0.5\<close> and initial value
  \<open>5.5\<close> in one, \<open>10\<close> and \<open>10\<close> in the other), so the constants are arguments.
\<close>

datatype dist = Beta real real | Bernoulli real

datatype constraint = Positive

datatype prog =
    Done
  | Param string real constraint "real \<Rightarrow> prog"
  | Sample string dist "real \<Rightarrow> prog"
  | Plate string nat prog
  | Observe string dist "real list" prog

definition model :: "real \<Rightarrow> real \<Rightarrow> real list \<Rightarrow> prog" where
  "model alpha0 beta0 data =
     Sample ''nu'' (Beta alpha0 beta0) (\<lambda>f.
       Plate ''data'' (length data)
         (Observe ''obs'' (Bernoulli f) data Done))"

definition guide :: "real \<Rightarrow> real \<Rightarrow> real list \<Rightarrow> prog" where
  "guide alpha_init beta_init data =
     Param ''alpha_q'' alpha_init Positive (\<lambda>alpha_q.
     Param ''beta_q'' beta_init Positive (\<lambda>beta_q.
     Sample ''nu'' (Beta alpha_q beta_q) (\<lambda>_. Done)))"

text \<open>
  The observations and constants of the two notebooks. The optimizer's parameters are
  \<open>{"lr": 0.0005, "betas": (0.90, 0.999)}\<close> in one notebook and \<open>{"lr": 0.0005}\<close>
  in the other.
\<close>

record adam_params =
  lr :: real
  betas :: "(real \<times> real) option"

record config =
  cfg_n_steps :: int
  cfg_data :: "real list"
  cfg_alpha0 :: real
  cfg_beta0 :: real
  cfg_alpha_init :: real
  cfg_beta_init :: real
  cfg_adam :: adam_params

definition notebook_a :: config where
  "notebook_a =
     \<lparr>cfg_n_steps = 50000,
      cfg_data = replicate 900 1 @ replicate 100 0,
      cfg_alpha0 = 1 / 2, cfg_beta0 = 1 / 2,
      cfg_alpha_init = 55 / 10, cfg_beta_init = 55 / 10,
      cfg_adam = \<lparr>lr = 5 / 10000, betas = Some (90 / 100, 999 / 1000)\<rparr>\<rparr>"

definition notebook_c :: config where
  "notebook_c =
     \<lparr>cfg_n_steps = 1000,
      cfg_data = replicate 9 1 @ replicate 1 0,
      cfg_alpha0 = 10, cfg_beta0 = 10,
      cfg_alpha_init = 10, cfg_beta_init = 10,
      cfg_adam = \<lparr>lr = 5 / 10000, betas = None\<rparr>\<rparr>"

section \<open>The inference library\<close>

text \<open>
  The probability primitives, the parameter store, the evaluation of a model or guide,
  the loss and the optimizer step belong to the inference library that the notebooks
  import; the repository holds only calls of them. Each is modelled here from the
  specification (sections 3, 4.1 to 4.5, 5 and 9) and from what the notebooks say about
  it. Numbers are real numbers. The library's validation of distribution parameters and
  of observations is left out: what happens with a Beta parameter or an initial value
  that is not positive, with a probability outside the unit interval or with an
  observation other than 0 or 1 is outside this development.
\<close>

text \<open>
  Modelled from the spec: the trace of an evaluation, missing from the repository with
  the rest of the library (section 9): the sample sites in the order of their
  evaluation, each under its name with its distribution and its value, a drawn or
  supplied number for a latent site and the data for an observed one.
\<close>

datatype site = Latent dist real | Observed dist "real list"

type_synonym trace = "(string \<times> site) list"

text \<open>
  Modelled from the spec: the state that the library's calls work on (sections 5 and 9):
  the process-wide store of named parameters, holding the unconstrained value of each,
  the single shared random generator, and the state of the optimizer.
\<close>

record ('r, 'o) pyro =
  param_store :: "string \<rightharpoonup> real"
  rng :: 'r
  optim :: 'o

text \<open>
  Modelled from the spec: the parts of the library that the specification leaves open
  (sections 4.1 and 4.5) are the fields of a record: how a value is drawn from a
  distribution with a generator of state \<open>'r\<close>, the logarithm of the Beta function,
  the optimizer \<open>Adam(adam_params)\<close> with its state \<open>'o\<close>, and its update. The update
  may compute any new unconstrained value for each parameter; it sees the optimizer
  state, the generator before the step, the parameter store and both traces. The
  construction of the inference object, \<open>SVI(model, guide, optimizer, loss)\<close>, is a
  field too: it accepts model and guide or raises. The specification wants a guide whose
  latent names differ from the model's refused there with \<open>NameMismatch\<close> (sections 4.3,
  7 and 8); the notebooks hold no such comparison, and what the library's constructor does
  is not in the repository.
\<close>

record ('r, 'o) lib =
  draw :: "dist \<Rightarrow> 'r \<Rightarrow> real \<times> 'r"
  lbeta :: "real \<Rightarrow> real \<Rightarrow> real"
  new_adam :: "adam_params \<Rightarrow> 'o"
  new_svi :: "(real list \<Rightarrow> prog) \<Rightarrow> (real list \<Rightarrow> prog) \<Rightarrow> exn option"
  adam_update :: "'o \<Rightarrow> 'r \<Rightarrow> (string \<rightharpoonup> real) \<Rightarrow> trace \<Rightarrow> trace
                    \<Rightarrow> 'o \<times> (string \<Rightarrow> real)"

text \<open>
  Modelled from the spec: \<open>log_prob\<close> of the library's distributions (section 4.1).
  For Bernoulli, \<open>log p(x) = x * log p + (1 - x) * log (1 - p)\<close>; for Beta, the
  standard log-density with the log-Beta-function normalizer.
\<close>

fun log_prob :: "('r, 'o) lib \<Rightarrow> dist \<Rightarrow> real \<Rightarrow> real" where
  "log_prob L (Beta a b) x = (a - 1) * ln x + (b - 1) * ln (1 - x) - lbeta L a b"
| "log_prob L (Bernoulli p) x = x * ln p + (1 - x) * ln (1 - p)"

text \<open>
  Modelled from the spec: the log-density of a site of the library's trace (section
  4.2). The observations in a plate are conditionally independent given the latent
  value, so their log-probabilities add up.
\<close>

fun site_log_prob :: "('r, 'o) lib \<Rightarrow> site \<Rightarrow> real" where
  "site_log_prob L (Latent d v) = log_prob L d v"
| "site_log_prob L (Observed d xs) = sum_list (map (log_prob L d) xs)"

text \<open>
  Modelled from the spec: the log-density of a whole trace of the library (section
  4.4), the sum over its sites.
\<close>

definition trace_log_prob :: "('r, 'o) lib \<Rightarrow> trace \<Rightarrow> real" where
  "trace_log_prob L tr = sum_list (map (\<lambda>e. site_log_prob L (snd e)) tr)"

text \<open>
  Modelled from the spec: the library's \<open>pyro.clear_param_store()\<close> (section 9: a
  process-wide store of named parameters, cleared between runs). The notebooks call it
  first, in case they run in a REPL.
\<close>

definition clear_param_store :: "('r, 'o) pyro \<Rightarrow> ('r, 'o) pyro" where
  "clear_param_store s = s\<lparr>param_store := Map.empty\<rparr>"

text \<open>
  Modelled from the spec: the library's \<open>pyro.param(name, init, constraint)\<close> on the
  store (section 3: positivity is enforced by optimizing in log-space and
  exponentiating). It registers the parameter with its initial value when the store does
  not hold the name and returns the stored parameter otherwise. With
  \<open>constraints.positive\<close> the store keeps the unconstrained value, the logarithm, and
  hands out its exponential; the guide's comment says so: the optimizer takes gradients on
  the unconstrained parameters, which are related to the constrained ones by a log.
\<close>

definition get_param ::
  "(string \<rightharpoonup> real) \<Rightarrow> string \<Rightarrow> real \<Rightarrow> constraint \<Rightarrow> real \<times> (string \<rightharpoonup> real)" where
  "get_param store name init c =
     (case store name of
        Some u \<Rightarrow> (exp u, store)
      | None \<Rightarrow> (exp (ln init), store(name \<mapsto> ln init)))"

text \<open>
  Modelled from the spec: the library's \<open>pyro.param(name)\<close> without an initial value,
  which reads a parameter of the store (section 4.5: the final parameters are read after
  the loop). A name that the store does not hold is a \<open>KeyError\<close>.
\<close>

definition pyro_param :: "('r, 'o) pyro \<Rightarrow> string \<Rightarrow> exn + real" where
  "pyro_param s name =
     (case param_store s name of None \<Rightarrow> Inl KeyError | Some u \<Rightarrow> Inr (exp u))"

text \<open>
  Modelled from the spec: the library's evaluation of a model or a guide (sections 4.2,
  4.3 and 9). A latent site draws its value from its distribution with the shared
  generator, or is supplied the value recorded under its name; an observed site takes the
  data; every sample site is recorded in the trace. A plate adds no site of its own.
\<close>

primrec run :: "('r, 'o) lib \<Rightarrow> (string \<rightharpoonup> real) \<Rightarrow> prog
                  \<Rightarrow> ('r, 'o) pyro \<times> trace \<Rightarrow> ('r, 'o) pyro \<times> trace" where
  "run L given Done st = st"
| "run L given (Param name init c k) st =
     (case st of (s, tr) \<Rightarrow>
        (case get_param (param_store s) name init c of
           (v, store') \<Rightarrow> run L given (k v) (s\<lparr>param_store := store'\<rparr>, tr)))"
| "run L given (Sample name d k) st =
     (case st of (s, tr) \<Rightarrow>
        (case given name of
           Some v \<Rightarrow> run L given (k v) (s, tr @ [(name, Latent d v)])
         | None \<Rightarrow>
             (case draw L d (rng s) of
                (v, r') \<Rightarrow> run L given (k v) (s\<lparr>rng := r'\<rparr>, tr @ [(name, Latent d v)]))))"
| "run L given (Plate name n body) st = run L given body st"
| "run L given (Observe name d xs k) st =
     (case st of (s, tr) \<Rightarrow> run L given k (s, tr @ [(name, Observed d xs)]))"

text \<open>
  Modelled from the spec: the value that a site of the library's trace supplies to a
  later evaluation (section 9: model and guide share sampled values by name). Only latent
  sites supply one.
\<close>

fun site_value :: "site \<Rightarrow> real option" where
  "site_value (Latent d v) = Some v"
| "site_value (Observed d xs) = None"

text \<open>
  Modelled from the spec: the values sampled in a trace of the library, by site name
  (section 9).
\<close>

definition sampled :: "trace \<Rightarrow> string \<rightharpoonup> real" where
  "sampled tr name = (case map_of tr name of None \<Rightarrow> None | Some e \<Rightarrow> site_value e)"

text \<open>
  Modelled from the spec: the two traces behind the library's \<open>Trace_ELBO\<close> (section
  4.4, steps 1 to 3). The guide is evaluated first and draws its latent values; then the
  model is evaluated against the values sampled in the guide.
\<close>

definition get_traces ::
  "('r, 'o) lib \<Rightarrow> (real list \<Rightarrow> prog) \<Rightarrow> (real list \<Rightarrow> prog) \<Rightarrow> real list
     \<Rightarrow> ('r, 'o) pyro \<Rightarrow> ('r, 'o) pyro \<times> trace \<times> trace" where
  "get_traces L mdl gde xs s =
     (case run L Map.empty (gde xs) (s, []) of
        (s1, guide_trace) \<Rightarrow>
          (case run L (sampled guide_trace) (mdl xs) (s1, []) of
             (s2, model_trace) \<Rightarrow> (s2, guide_trace, model_trace)))"

text \<open>
  Modelled from the spec: the library's \<open>SVI.evaluate_loss\<close> with \<open>Trace_ELBO\<close>
  (section 4.4, step 4): the negated difference of the model's and the guide's
  log-densities, without a gradient step.
\<close>

definition evaluate_loss ::
  "('r, 'o) lib \<Rightarrow> (real list \<Rightarrow> prog) \<Rightarrow> (real list \<Rightarrow> prog) \<Rightarrow> real list
     \<Rightarrow> ('r, 'o) pyro \<Rightarrow> real \<times> ('r, 'o) pyro" where
  "evaluate_loss L mdl gde xs s =
     (case get_traces L mdl gde xs s of
        (s2, guide_trace, model_trace) \<Rightarrow>
          (- (trace_log_prob L model_trace - trace_log_prob L guide_trace), s2))"

text \<open>
  Modelled from the spec: the library's \<open>SVI.step\<close> (section 4.5): it computes the
  loss, lets the optimizer update the unconstrained value of every stored parameter, and
  returns the loss. The arguments of \<open>step\<close> are piped to the model and the guide.
\<close>

definition svi_step ::
  "('r, 'o) lib \<Rightarrow> (real list \<Rightarrow> prog) \<Rightarrow> (real list \<Rightarrow> prog) \<Rightarrow> real list
     \<Rightarrow> ('r, 'o) pyro \<Rightarrow> real \<times> ('r, 'o) pyro" where
  "svi_step L mdl gde xs s =
     (case get_traces L mdl gde xs s of
        (s2, guide_trace, model_trace) \<Rightarrow>
          (case adam_update L (optim s2) (rng s) (param_store s2) guide_trace model_trace of
             (o', u') \<Rightarrow>
               (- (trace_log_prob L model_trace - trace_log_prob L guide_trace),
                s2\<lparr>param_store := (\<lambda>name. map_option (\<lambda>_. u' name) (param_store s2 name)),
                   optim := o'\<rparr>)))"

section \<open>The Bernoulli example\<close>

text \<open>
  The example clears the parameter store, builds the optimizer and the inference object,
  runs the loop and reads the learned parameters:
  \<^verbatim>\<open>
  pyro.clear_param_store()
  ...
  optimizer = Adam(adam_params)
  svi = SVI(model, guide, optimizer, loss=Trace_ELBO())
  losses = []
  for step in range(n_steps): ...
  alpha_q = pyro.param("alpha_q").item()
  beta_q = pyro.param("beta_q").item()
  \<close>
  Model and guide are arguments of \<open>svi_example\<close>, as they are of \<open>SVI\<close>;
  \<open>bernoulli_example\<close> is the example with the model and the guide of the notebooks.
  An exception of the construction ends the example before the loop.
\<close>

record fit =
  fit_alpha_q :: real
  fit_beta_q :: real
  loss_trace :: "real list"
  printed :: string

definition svi_example ::
  "('r, 'o) lib \<Rightarrow> (real list \<Rightarrow> prog) \<Rightarrow> (real list \<Rightarrow> prog) \<Rightarrow> adam_params
     \<Rightarrow> int \<Rightarrow> real list \<Rightarrow> ('r, 'o) pyro \<Rightarrow> exn + fit" where
  "svi_example L mdl gde ap n xs s =
     (case new_svi L mdl gde of
        Some e \<Rightarrow> Inl e
      | None \<Rightarrow>
          (let c = training_loop (svi_step L mdl gde xs) n
                     ((clear_param_store s)\<lparr>optim := new_adam L ap\<rparr>)
           in case pyro_param (runtime c) ''alpha_q'' of
                Inl e \<Rightarrow> Inl e
              | Inr a \<Rightarrow>
                  (case pyro_param (runtime c) ''beta_q'' of
                     Inl e \<Rightarrow> Inl e
                   | Inr b \<Rightarrow>
                       Inr \<lparr>fit_alpha_q = a, fit_beta_q = b,
                            loss_trace = losses c, printed = stdout c\<rparr>)))"

definition bernoulli_example :: "('r, 'o) lib \<Rightarrow> config \<Rightarrow> ('r, 'o) pyro \<Rightarrow> exn + fit" where
  "bernoulli_example L cfg s =
     svi_example L (model (cfg_alpha0 cfg) (cfg_beta0 cfg))
       (guide (cfg_alpha_init cfg) (cfg_beta_init cfg))
       (cfg_adam cfg) (cfg_n_steps cfg) (cfg_data cfg) s"

section \<open>An instance for evaluation\<close>

text \<open>
  A library instance and a start state on which the definitions can be evaluated: every
  draw returns \<open>1 / 2\<close> and advances the generator, a counter, by one; the log-Beta
  function is constantly \<open>0\<close>; the optimizer counts its updates and sets every
  unconstrained parameter to \<open>0\<close>; the construction of the inference object accepts
  every model and guide. The start state has an empty parameter store.
\<close>

definition fixed_lib :: "(nat, nat) lib" where
  "fixed_lib =
     \<lparr>draw = (\<lambda>d r. (1 / 2, Suc r)),
      lbeta = (\<lambda>a b. 0),
      new_adam = (\<lambda>p. 0),
      new_svi = (\<lambda>m g. None),
      adam_update = (\<lambda>os r st g m. (Suc os, \<lambda>name. 0))\<rparr>"

definition start :: "(nat, nat) pyro" where
  "start = \<lparr>param_store = Map.empty, rng = 0, optim = 0\<rparr>"

section \<open>Properties of the posterior summary\<close>

lemma inferred_mean_pos:
  assumes "0 < a" and "0 < b"
  shows "inferred_mean a b = Inr (a / (a + b))"
  using assms by (simp add: inferred_mean_def truediv_def)

lemma factor_pos:
  assumes "0 < a" and "0 < b"
  shows "factor a b = Inr (b / (a * (1 + a + b)))"
  using assms by (simp add: factor_def truediv_def)

lemma inferred_std_pos:
  assumes "0 < a" and "0 < b"
  shows "inferred_std a b = Inr (a / (a + b) * sqrt (b / (a * (1 + a + b))))"
proof -
  have "0 \<le> b / (a * (1 + a + b))"
    using assms by simp
  then have "math_sqrt (b / (a * (1 + a + b))) = Inr (sqrt (b / (a * (1 + a + b))))"
    by (simp add: math_sqrt_def)
  then show ?thesis
    by (simp add: inferred_std_def inferred_mean_pos [OF assms] factor_pos [OF assms])
qed

lemma beta_std_factorization:
  fixes a b :: real
  assumes "0 < a" and "0 < b"
  shows "a / (a + b) * sqrt (b / (a * (1 + a + b)))
           = sqrt (a * b / ((a + b)\<^sup>2 * (a + b + 1)))"
proof -
  have m: "0 \<le> a / (a + b)"
    using assms by simp
  have nz: "a \<noteq> 0"
    using assms by simp
  have "(a / (a + b))\<^sup>2 * (b / (a * (1 + a + b)))
          = (a * (a * b)) / (a * ((a + b)\<^sup>2 * (a + b + 1)))"
    by (simp add: power2_eq_square power_divide ac_simps)
  also have "\<dots> = a * b / ((a + b)\<^sup>2 * (a + b + 1))"
    using nz by (rule mult_divide_mult_cancel_left)
  finally have sq: "(a / (a + b))\<^sup>2 * (b / (a * (1 + a + b)))
                      = a * b / ((a + b)\<^sup>2 * (a + b + 1))" .
  have "a / (a + b) * sqrt (b / (a * (1 + a + b)))
          = sqrt ((a / (a + b))\<^sup>2) * sqrt (b / (a * (1 + a + b)))"
    using m by (simp only: real_sqrt_abs abs_of_nonneg)
  also have "\<dots> = sqrt ((a / (a + b))\<^sup>2 * (b / (a * (1 + a + b))))"
    by (simp only: real_sqrt_mult)
  finally show ?thesis
    by (simp only: sq)
qed

text \<open>
  Claim C1. For strictly positive \<open>alpha_q\<close> and \<open>beta_q\<close> the summary raises nothing
  and returns the closed-form moments of the Beta distribution: the mean is
  \<open>alpha_q / (alpha_q + beta_q)\<close>, and the standard deviation, which the code computes
  as \<open>inferred_mean * sqrt factor\<close>, equals
  \<open>sqrt (alpha_q * beta_q / ((alpha_q + beta_q)\<^sup>2 * (alpha_q + beta_q + 1)))\<close>.
  Both are functions of the two inputs alone.
\<close>

theorem summary_closed_form:
  assumes "0 < alpha_q" and "0 < beta_q"
  shows "inferred_mean alpha_q beta_q = Inr (alpha_q / (alpha_q + beta_q))
       \<and> inferred_std alpha_q beta_q
           = Inr (sqrt (alpha_q * beta_q
                        / ((alpha_q + beta_q)\<^sup>2 * (alpha_q + beta_q + 1))))"
  using assms
  by (simp only: inferred_mean_pos inferred_std_pos beta_std_factorization simp_thms)

theorem summary_closed_form_witness:
  "(0::real) < 3 \<and> (0::real) < 1
   \<and> inferred_mean 3 1 = Inr (3 / 4)
   \<and> inferred_std 3 1 = Inr (sqrt (3 / 80))"
  using summary_closed_form [of 3 1] by (simp add: power2_eq_square)

lemma inferred_std_12_8: "inferred_std 12 8 = Inr (sqrt (2 / 175))"
proof -
  have "inferred_std 12 8 = Inr (12 / (12 + 8) * sqrt (8 / (12 * (1 + 12 + 8))))"
    by (rule inferred_std_pos) simp_all
  also have "12 / (12 + 8) * sqrt (8 / (12 * (1 + 12 + 8)))
               = sqrt (12 * 8 / ((12 + 8)\<^sup>2 * (12 + 8 + 1)))"
    by (rule beta_std_factorization) simp_all
  also have "(12 * 8 / ((12 + 8)\<^sup>2 * (12 + 8 + 1)) :: real) = 2 / 175"
    by (simp add: power2_eq_square)
  finally show ?thesis .
qed

lemma sqrt_2_175_lower: "10690 / 100000 < sqrt (2 / 175)"
  by (rule real_less_rsqrt) (simp add: power2_eq_square)

lemma sqrt_2_175_upper: "sqrt (2 / 175) < 10691 / 100000"
  by (rule real_less_lsqrt) (simp_all add: power2_eq_square)

text \<open>
  Claim C2, as the specification states it: at \<open>alpha_q = 12.0\<close> and
  \<open>beta_q = 8.0\<close> the summary returns mean \<open>0.6\<close> and a standard deviation of
  about \<open>0.1109\<close>. The mean is right. The standard deviation is
  \<open>sqrt (96 / 8400) = sqrt (2 / 175)\<close>, which lies between \<open>0.10690\<close> and
  \<open>0.10691\<close>: it is further than \<open>0.0039\<close> from \<open>0.1109\<close>.
\<close>

theorem std_far_from_1109:
  "inferred_std 12 8 = Inr (sqrt (2 / 175))
   \<and> 39 / 10000 < \<bar>sqrt (2 / 175) - 1109 / 10000\<bar>"
  using sqrt_2_175_upper by (simp add: inferred_std_12_8)

text \<open>
  Claim C2, amended: at \<open>alpha_q = 12.0\<close> and \<open>beta_q = 8.0\<close> the summary returns
  mean \<open>0.6\<close> and standard deviation \<open>sqrt (2 / 175)\<close>, which is \<open>0.1069\<close>
  to four decimal places.
\<close>

theorem summary_12_8:
  "inferred_mean 12 8 = Inr (6 / 10)
   \<and> inferred_std 12 8 = Inr (sqrt (2 / 175))
   \<and> \<bar>sqrt (2 / 175) - 1069 / 10000\<bar> \<le> 5 / 100000"
  using sqrt_2_175_lower sqrt_2_175_upper
  by (simp add: inferred_std_12_8 inferred_mean_def truediv_def abs_le_iff)

lemma summary_in_range_exact:
  assumes "0 < alpha_q" and "0 < beta_q"
  shows "\<exists>m s. inferred_mean alpha_q beta_q = Inr m
             \<and> inferred_std alpha_q beta_q = Inr s
             \<and> 0 < m \<and> m < 1 \<and> 0 < s"
proof -
  have m: "0 < alpha_q / (alpha_q + beta_q)" "alpha_q / (alpha_q + beta_q) < 1"
    using assms by simp_all
  have "0 < beta_q / (alpha_q * (1 + alpha_q + beta_q))"
    using assms by simp
  then have "0 < sqrt (beta_q / (alpha_q * (1 + alpha_q + beta_q)))"
    by (simp only: real_sqrt_gt_0_iff)
  with m(1)
  have s: "0 < alpha_q / (alpha_q + beta_q)
                 * sqrt (beta_q / (alpha_q * (1 + alpha_q + beta_q)))"
    by (rule mult_pos_pos)
  show ?thesis
    using m s inferred_mean_pos [OF assms] inferred_std_pos [OF assms] by blast
qed

section \<open>Properties of the summary in double precision\<close>

lemma pow2_pos: "0 < pow2 k"
  by (simp add: pow2_def)

lemma pow2_mono: "i \<le> j \<Longrightarrow> pow2 i \<le> pow2 j"
  by (simp add: pow2_def)

lemma pow2_strict_mono: "i < j \<Longrightarrow> pow2 i < pow2 j"
  by (simp add: pow2_def)

lemma pow2_mult: "pow2 i * pow2 j = pow2 (i + j)"
  by (simp add: pow2_def powr_add)

lemma pow2_divide: "pow2 i / pow2 j = pow2 (i - j)"
  by (simp add: pow2_def powr_diff)

lemma pow2_zero: "pow2 0 = 1"
  by (simp add: pow2_def)

lemma pow2_double: "pow2 k + pow2 k = pow2 (k + 1)"
  by (simp add: pow2_def powr_add)

lemma sqrt_pow2: "sqrt (pow2 (2 * k)) = pow2 k"
proof -
  have "pow2 (2 * k) = (pow2 k)\<^sup>2"
    by (simp add: power2_eq_square pow2_mult)
  then show ?thesis using pow2_pos [of k] by simp
qed

lemma round_half_even_int: "round_half_even (of_int n) = n"
  by (simp add: round_half_even_def)

lemma round_half_even_floor:
  "\<lfloor>q\<rfloor> \<le> round_half_even q" "round_half_even q \<le> \<lfloor>q\<rfloor> + 1"
  by (simp_all add: round_half_even_def)

lemma round_half_even_ge:
  assumes "of_int n \<le> q"
  shows "n \<le> round_half_even q"
proof -
  have "n \<le> \<lfloor>q\<rfloor>" using assms by (simp add: le_floor_iff)
  then show ?thesis using round_half_even_floor(1) [of q] by linarith
qed

lemma round_half_even_le:
  assumes "q \<le> of_int n"
  shows "round_half_even q \<le> n"
proof (cases "q = of_int n")
  case True
  then show ?thesis by (simp add: round_half_even_int)
next
  case False
  with assms have "q < of_int n" by simp
  then have "\<lfloor>q\<rfloor> < n" by (simp add: floor_less_iff)
  then show ?thesis using round_half_even_floor(2) [of q] by linarith
qed

lemma exponent_bounds:
  assumes "0 < x"
  shows "2 powr of_int (exponent x) \<le> x" and "x < 2 powr (of_int (exponent x) + 1)"
  using floor_log_eq_powr_iff [of x 2 "exponent x"] assms
  by (simp_all add: exponent_def)

lemma exponent_eqI:
  assumes "0 < x" and "2 powr of_int k \<le> x" and "x < 2 powr (of_int k + 1)"
  shows "exponent x = k"
  using floor_log_eq_powr_iff [of x 2 k] assms by (simp add: exponent_def)

lemma exponent_ge:
  assumes "0 < x" and "2 powr of_int k \<le> x"
  shows "k \<le> exponent x"
proof -
  have "of_int k \<le> log 2 x"
    using assms by (simp add: le_log_iff)
  then show ?thesis by (simp add: exponent_def le_floor_iff)
qed

lemma exponent_less:
  assumes "0 < x" and "x < 2 powr of_int k"
  shows "exponent x < k"
proof -
  have "log 2 x < of_int k"
    using assms by (simp add: log_less_iff)
  then show ?thesis by (simp add: exponent_def floor_less_iff)
qed

lemma ulp_pos: "0 < ulp x"
  by (simp add: ulp_def)

lemma float64_pos_eq:
  assumes "0 < x"
  shows "float64 x = of_int (round_half_even (x / ulp x)) * ulp x"
  using assms by (simp add: float64_def)

lemma scaled_bounds:
  assumes "0 < x"
  shows "2 ^ 52 \<le> x / ulp x" and "x / ulp x < 2 ^ 53"
proof -
  have u: "2 powr of_int (exponent x) = 2 ^ 52 * ulp x"
    "2 powr (of_int (exponent x) + 1) = 2 ^ 53 * ulp x"
    by (simp_all add: ulp_def powr_diff powr_add)
  show "2 ^ 52 \<le> x / ulp x"
    using exponent_bounds(1) [OF assms] ulp_pos [of x] by (simp add: u pos_le_divide_eq)
  show "x / ulp x < 2 ^ 53"
    using exponent_bounds(2) [OF assms] ulp_pos [of x] by (simp add: u pos_divide_less_eq)
qed

lemma float64_ge_binade:
  assumes "0 < x"
  shows "2 powr of_int (exponent x) \<le> float64 x"
proof -
  have "(2::real) ^ 52 = of_int (2 ^ 52)" by simp
  then have "of_int (2 ^ 52) \<le> x / ulp x"
    using scaled_bounds(1) [OF assms] by simp
  then have "(2::int) ^ 52 \<le> round_half_even (x / ulp x)"
    by (rule round_half_even_ge)
  then have "(2::real) ^ 52 \<le> of_int (round_half_even (x / ulp x))"
    by (metis of_int_le_iff of_int_numeral of_int_power)
  then have "2 ^ 52 * ulp x \<le> of_int (round_half_even (x / ulp x)) * ulp x"
    using ulp_pos [of x] by simp
  moreover have "2 powr of_int (exponent x) = 2 ^ 52 * ulp x"
    by (simp add: ulp_def powr_diff)
  ultimately show ?thesis
    by (simp add: float64_pos_eq [OF assms])
qed

lemma float64_le_binade:
  assumes "0 < x"
  shows "float64 x \<le> 2 powr (of_int (exponent x) + 1)"
proof -
  have "x / ulp x \<le> of_int (2 ^ 53)"
    using scaled_bounds(2) [OF assms] by simp
  then have "round_half_even (x / ulp x) \<le> (2::int) ^ 53"
    by (rule round_half_even_le)
  then have "of_int (round_half_even (x / ulp x)) \<le> (2::real) ^ 53"
    by (metis of_int_le_iff of_int_numeral of_int_power)
  then have "of_int (round_half_even (x / ulp x)) * ulp x \<le> 2 ^ 53 * ulp x"
    using ulp_pos [of x] by simp
  moreover have "2 powr (of_int (exponent x) + 1) = 2 ^ 53 * ulp x"
    by (simp add: ulp_def powr_diff powr_add)
  ultimately show ?thesis
    by (simp add: float64_pos_eq [OF assms])
qed

lemma float64_pos:
  assumes "0 < x"
  shows "0 < float64 x"
proof -
  have "(0::real) < 2 powr of_int (exponent x)" by simp
  then show ?thesis using float64_ge_binade [OF assms] by linarith
qed

lemma float64_exact:
  assumes "0 < x" and "x / ulp x = of_int n"
  shows "float64 x = x"
proof -
  have "of_int (round_half_even (x / ulp x)) * ulp x = of_int n * ulp x"
    by (simp add: assms(2) round_half_even_int)
  also have "\<dots> = x" using assms(2) ulp_pos [of x] by (simp add: field_simps)
  finally show ?thesis by (simp add: float64_pos_eq [OF assms(1)])
qed

lemma float64_power_of_two: "float64 (2 powr of_int k) = 2 powr of_int k"
proof -
  have e: "exponent (2 powr of_int k) = k"
    by (rule exponent_eqI) simp_all
  have "2 powr of_int k / ulp (2 powr of_int k) = of_int (2 ^ 52)"
    by (simp add: ulp_def e powr_diff)
  then show ?thesis
    by (rule float64_exact [rotated]) simp
qed

lemma float64_of_int:
  assumes "0 < n" and "n < 2 ^ 53"
  shows "float64 (of_int n) = of_int n"
proof -
  let ?x = "of_int n :: real"
  have x: "0 < ?x" using assms(1) by simp
  have "?x < 2 powr of_int 53"
  proof -
    have "?x < of_int (2 ^ 53)" using assms(2) by (simp only: of_int_less_iff)
    then show ?thesis by (simp add: powr_realpow)
  qed
  then have hi: "exponent ?x < 53" using x by (rule exponent_less [rotated])
  have "2 powr of_int 0 \<le> ?x" using assms(1) by simp
  then have lo: "0 \<le> exponent ?x" using x by (rule exponent_ge [rotated])
  define d where "d = nat (52 - exponent ?x)"
  have "of_int (exponent ?x) - 52 = - real d"
    using hi by (simp add: d_def)
  then have u: "ulp ?x = 1 / 2 ^ d"
    by (simp add: ulp_def powr_minus powr_realpow inverse_eq_divide)
  have "?x / ulp ?x = of_int (n * 2 ^ d)"
    by (simp add: u)
  with x show ?thesis by (rule float64_exact)
qed

lemma float64_le_pow:
  assumes "0 < x" and "x \<le> 2 powr of_int j"
  shows "float64 x \<le> 2 powr of_int j"
proof (cases "x = 2 powr of_int j")
  case True
  then show ?thesis by (simp add: float64_power_of_two)
next
  case False
  with assms have "x < 2 powr of_int j" by simp
  then have "exponent x < j" using assms(1) by (rule exponent_less [rotated])
  then have "of_int (exponent x) + 1 \<le> (of_int j :: real)" by linarith
  then have "2 powr (of_int (exponent x) + 1) \<le> (2::real) powr of_int j"
    by simp
  then show ?thesis using float64_le_binade [OF assms(1)] by linarith
qed

lemma float64_ge_pow:
  assumes "0 < x" and "2 powr of_int i \<le> x"
  shows "2 powr of_int i \<le> float64 x"
proof -
  have "i \<le> exponent x" using assms by (rule exponent_ge)
  then have "(2::real) powr of_int i \<le> 2 powr of_int (exponent x)" by simp
  then show ?thesis using float64_ge_binade [OF assms(1)] by linarith
qed

lemma float64_ge_representable:
  assumes "0 < a" and "float64 a = a" and "a \<le> y"
  shows "a \<le> float64 y"
proof -
  have y: "0 < y" using assms by linarith
  have le: "exponent a \<le> exponent y"
    using exponent_ge [OF y, of "exponent a"] exponent_bounds(1) [OF assms(1)] assms(3)
    by linarith
  show ?thesis
  proof (cases "exponent a = exponent y")
    case True
    then have u: "ulp a = ulp y" by (simp add: ulp_def)
    define n where "n = round_half_even (a / ulp a)"
    have a: "a = of_int n * ulp y"
      using assms(2) float64_pos_eq [OF assms(1)] by (simp add: n_def u)
    then have "of_int n = a / ulp y" using ulp_pos [of y] by simp
    also have "\<dots> \<le> y / ulp y" using assms(3) ulp_pos [of y] by (simp add: divide_right_mono)
    finally have "n \<le> round_half_even (y / ulp y)" by (rule round_half_even_ge)
    then have "of_int n * ulp y \<le> of_int (round_half_even (y / ulp y)) * ulp y"
      using ulp_pos [of y] by simp
    then show ?thesis using a by (simp add: float64_pos_eq [OF y])
  next
    case False
    with le have "exponent a + 1 \<le> exponent y" by simp
    then have "of_int (exponent a) + 1 \<le> (of_int (exponent y) :: real)" by linarith
    then have "2 powr (of_int (exponent a) + 1) \<le> (2::real) powr of_int (exponent y)"
      by simp
    then show ?thesis
      using exponent_bounds(2) [OF assms(1)] float64_ge_binade [OF y] by linarith
  qed
qed

lemma float64_one: "float64 1 = 1"
  using float64_power_of_two [of 0] by simp

lemma float64_le_one:
  assumes "0 < x" and "x \<le> 1"
  shows "float64 x \<le> 1"
  using float64_le_pow [OF assms(1), of 0] assms(2) by simp

lemma float64_between:
  assumes "pow2 i \<le> x" and "x \<le> pow2 j"
  shows "pow2 i \<le> float64 x" and "float64 x \<le> pow2 j"
proof -
  have x: "0 < x" using assms(1) pow2_pos [of i] by linarith
  show "pow2 i \<le> float64 x"
    using float64_ge_pow [OF x, of i] assms(1) by (simp add: pow2_def)
  show "float64 x \<le> pow2 j"
    using float64_le_pow [OF x, of j] assms(2) by (simp add: pow2_def)
qed

lemma normalI:
  assumes "pow2 i \<le> x" and "x \<le> pow2 j" and "- 1022 \<le> i" and "j < 1024"
  shows "normal x"
  using assms(1,2) pow2_mono [OF assms(3)] pow2_strict_mono [OF assms(4)]
  by (simp add: normal_def)

lemma summary_f64_values:
  assumes "0 < a" and "0 < b" and "float64 a = a"
  shows "\<exists>m s. inferred_mean_f64 a b = Inr m \<and> inferred_std_f64 a b = Inr s
           \<and> 0 < m \<and> m \<le> 1 \<and> 0 < s"
proof -
  define s1 where "s1 = fadd a b"
  have s1: "a \<le> s1"
    unfolding s1_def fadd_def using assms by (intro float64_ge_representable) simp_all
  then have s1_pos: "0 < s1" using assms(1) by linarith
  define m where "m = float64 (a / s1)"
  have q: "0 < a / s1" "a / s1 \<le> 1"
    using s1 s1_pos assms(1) by simp_all
  have m: "0 < m" "m \<le> 1"
    unfolding m_def using q by (simp_all add: float64_pos float64_le_one)
  have mean: "inferred_mean_f64 a b = Inr m"
    using s1_pos by (simp add: inferred_mean_f64_def fdiv_def m_def s1_def)
  define t1 where "t1 = fadd 1 a"
  have t1: "0 < t1" unfolding t1_def fadd_def using assms(1) by (intro float64_pos) simp
  define t2 where "t2 = fadd t1 b"
  have t2: "0 < t2" unfolding t2_def fadd_def using t1 assms(2) by (intro float64_pos) simp
  define t3 where "t3 = fmul a t2"
  have t3: "0 < t3" unfolding t3_def fmul_def using t2 assms(1) by (intro float64_pos) simp
  define f where "f = float64 (b / t3)"
  have f: "0 < f" unfolding f_def using t3 assms(2) by (intro float64_pos) simp
  have factor: "factor_f64 a b = Inr f"
    using t3 by (simp add: factor_f64_def fdiv_def f_def t3_def t2_def t1_def)
  define r where "r = float64 (sqrt f)"
  have r: "0 < r" unfolding r_def using f by (intro float64_pos) simp
  have root: "fsqrt f = Inr r"
    using f by (simp add: fsqrt_def r_def)
  have s: "0 < fmul m r"
    unfolding fmul_def using m(1) r by (intro float64_pos) simp
  have "inferred_std_f64 a b = Inr (fmul m r)"
    by (simp add: inferred_std_f64_def mean factor root)
  with mean m s show ?thesis by blast
qed

lemma summary_f64_normal:
  assumes "float64 a = a"
      and a: "pow2 (- 149) \<le> a" "a < pow2 128"
      and b: "pow2 (- 149) \<le> b" "b < pow2 128"
  shows "rounds_normally a b"
proof -
  have pa: "0 < a" using a(1) pow2_pos [of "- 149"] by linarith
  have pb: "0 < b" using b(1) pow2_pos [of "- 149"] by linarith
  have a': "a \<le> pow2 128" and b': "b \<le> pow2 128"
    using a(2) b(2) by simp_all
  have one: "1 \<le> pow2 128"
    using pow2_mono [of 0 128] by (simp add: pow2_zero)
  have d129: "pow2 128 + pow2 128 = pow2 129"
    using pow2_double [of 128] by simp
  have d130: "pow2 129 + pow2 129 = pow2 130"
    using pow2_double [of 129] by simp
  have m129: "pow2 128 \<le> pow2 129"
    by (rule pow2_mono) simp
  \<comment> \<open>the sum\<close>
  have s0: "pow2 (- 149) \<le> a + b" "a + b \<le> pow2 129"
    using a(1) a' b' pb d129 by linarith+
  have n1: "normal (a + b)" using s0 by (rule normalI) simp_all
  have s1: "pow2 (- 149) \<le> fadd a b" "fadd a b \<le> pow2 129"
    unfolding fadd_def using s0 by (rule float64_between)+
  have s1a: "a \<le> fadd a b"
    unfolding fadd_def using pa assms(1) pb by (intro float64_ge_representable) simp_all
  have s1p: "0 < fadd a b" using s1a pa by linarith
  \<comment> \<open>the mean\<close>
  have "pow2 (- 149) / pow2 129 \<le> a / fadd a b"
    using a(1) s1(2) s1p pa pow2_pos [of 129] by (intro frac_le) simp_all
  then have q: "pow2 (- 278) \<le> a / fadd a b" "a / fadd a b \<le> pow2 0"
    using s1a s1p by (simp_all add: pow2_divide pow2_zero)
  have n2: "normal (a / fadd a b)" using q by (rule normalI) simp_all
  have m: "pow2 (- 278) \<le> float64 (a / fadd a b)" "float64 (a / fadd a b) \<le> pow2 0"
    using q by (rule float64_between)+
  \<comment> \<open>the denominator of the factor\<close>
  have t0: "pow2 0 \<le> 1 + a" "1 + a \<le> pow2 129"
    using pa a' one d129 by (simp_all add: pow2_zero)
  have n3: "normal (1 + a)" using t0 by (rule normalI) simp_all
  have t1: "pow2 0 \<le> fadd 1 a" "fadd 1 a \<le> pow2 129"
    unfolding fadd_def using t0 by (rule float64_between)+
  have t2e: "pow2 0 \<le> fadd 1 a + b" "fadd 1 a + b \<le> pow2 130"
    using t1 pb b' d130 m129 by linarith+
  have n4: "normal (fadd 1 a + b)" using t2e by (rule normalI) simp_all
  have t2: "pow2 0 \<le> fadd (fadd 1 a) b" "fadd (fadd 1 a) b \<le> pow2 130"
    unfolding fadd_def [of "fadd 1 a" b] using t2e by (rule float64_between)+
  have t2p: "0 < fadd (fadd 1 a) b" using t2(1) pow2_pos [of 0] by linarith
  have "pow2 (- 149) * pow2 0 \<le> a * fadd (fadd 1 a) b"
    using a(1) t2(1) pow2_pos [of "- 149"] pow2_pos [of 0] pa t2p
    by (intro mult_mono) simp_all
  moreover have "a * fadd (fadd 1 a) b \<le> pow2 128 * pow2 130"
    using a' t2(2) pa t2p pow2_pos [of 128] by (intro mult_mono) simp_all
  ultimately have t3e: "pow2 (- 149) \<le> a * fadd (fadd 1 a) b"
                 "a * fadd (fadd 1 a) b \<le> pow2 258"
    by (simp_all add: pow2_mult)
  have n5: "normal (a * fadd (fadd 1 a) b)" using t3e by (rule normalI) simp_all
  have t3: "pow2 (- 149) \<le> fmul a (fadd (fadd 1 a) b)"
           "fmul a (fadd (fadd 1 a) b) \<le> pow2 258"
    unfolding fmul_def using t3e by (rule float64_between)+
  have t3p: "0 < fmul a (fadd (fadd 1 a) b)"
    using t3(1) pow2_pos [of "- 149"] by linarith
  \<comment> \<open>the factor and its root\<close>
  have "pow2 (- 149) / pow2 258 \<le> b / fmul a (fadd (fadd 1 a) b)"
    using b(1) t3(2) t3p pb pow2_pos [of 258] by (intro frac_le) simp_all
  moreover have "b / fmul a (fadd (fadd 1 a) b) \<le> pow2 128 / pow2 (- 149)"
    using b' t3(1) pb pow2_pos [of "- 149"] pow2_pos [of 128] by (intro frac_le) simp_all
  ultimately have fe: "pow2 (- 407) \<le> b / fmul a (fadd (fadd 1 a) b)"
                "b / fmul a (fadd (fadd 1 a) b) \<le> pow2 277"
    by (simp_all add: pow2_divide)
  have n6: "normal (b / fmul a (fadd (fadd 1 a) b))" using fe by (rule normalI) simp_all
  define f where "f = float64 (b / fmul a (fadd (fadd 1 a) b))"
  have f: "pow2 (- 407) \<le> f" "f \<le> pow2 277"
    unfolding f_def using fe by (rule float64_between)+
  have "pow2 (2 * (- 204)) \<le> f"
    using f(1) pow2_mono [of "2 * (- 204)" "- 407"] by simp
  then have "sqrt (pow2 (2 * (- 204))) \<le> sqrt f"
    by (rule real_sqrt_le_mono)
  moreover have "f \<le> pow2 (2 * 139)"
    using f(2) pow2_mono [of 277 "2 * 139"] by simp
  then have "sqrt f \<le> sqrt (pow2 (2 * 139))"
    by (rule real_sqrt_le_mono)
  ultimately have re: "pow2 (- 204) \<le> sqrt f" "sqrt f \<le> pow2 139"
    by (simp_all only: sqrt_pow2)
  have n7: "normal (sqrt f)"
    using re by (rule normalI) simp_all
  have r: "pow2 (- 204) \<le> float64 (sqrt f)" "float64 (sqrt f) \<le> pow2 139"
    using re by (rule float64_between)+
  have mp: "0 < float64 (a / fadd a b)"
    using m(1) pow2_pos [of "- 278"] by linarith
  have rp: "0 < float64 (sqrt f)"
    using r(1) pow2_pos [of "- 204"] by linarith
  have "pow2 (- 278) * pow2 (- 204) \<le> float64 (a / fadd a b) * float64 (sqrt f)"
    using m(1) r(1) mp rp pow2_pos [of "- 278"] pow2_pos [of "- 204"]
    by (intro mult_mono) simp_all
  moreover have "float64 (a / fadd a b) * float64 (sqrt f) \<le> pow2 0 * pow2 139"
    using m(2) r(2) mp rp pow2_pos [of 0] by (intro mult_mono) simp_all
  ultimately have "pow2 (- 482) \<le> float64 (a / fadd a b) * float64 (sqrt f)"
            "float64 (a / fadd a b) * float64 (sqrt f) \<le> pow2 139"
    by (simp_all add: pow2_mult)
  then have n8: "normal (float64 (a / fadd a b) * float64 (sqrt f))"
    by (rule normalI) simp_all
  show ?thesis
    using n1 n2 n3 n4 n5 n6 n7 n8 by (simp add: rounds_normally_def f_def)
qed

lemma exponent_1e17: "exponent 99999998430674944 = 56" "exponent 99999998430674945 = 56"
  by (rule exponent_eqI; simp add: powr_add)+

lemma float64_1e17: "float64 99999998430674944 = 99999998430674944"
proof -
  have u: "ulp 99999998430674944 = 16"
    by (simp add: ulp_def exponent_1e17)
  have "(99999998430674944::real) / ulp 99999998430674944 = of_int 6249999901917184"
    by (simp add: u)
  then show ?thesis
    by (rule float64_exact [rotated]) simp
qed

lemma float64_1e17_plus_1: "float64 99999998430674945 = 99999998430674944"
proof -
  have u: "ulp 99999998430674945 = 16"
    by (simp add: ulp_def exponent_1e17)
  have "round_half_even (99999998430674945 / 16) = 6249999901917184"
    by (simp add: round_half_even_def floor_eq_iff)
  then show ?thesis
    by (simp add: float64_def u)
qed

lemma float32_range_1e17:
  "pow2 (- 149) \<le> 99999998430674944" "99999998430674944 < pow2 128"
proof -
  have lo: "pow2 (- 149) \<le> 1" using pow2_mono [of "- 149" 0] by (simp add: pow2_zero)
  then show "pow2 (- 149) \<le> 99999998430674944" by simp
  have "pow2 57 = 2 ^ 57" by (simp add: pow2_def powr_realpow [of 2 57, simplified])
  then have "99999998430674944 < pow2 57" by simp
  then show "99999998430674944 < pow2 128" using pow2_mono [of 57 128] by simp
qed

lemma float32_range_small:
  "pow2 (- 149) \<le> 1" "16 \<le> pow2 128"
proof -
  show "pow2 (- 149) \<le> 1" using pow2_mono [of "- 149" 0] by (simp add: pow2_zero)
  have "pow2 4 = 16" by (simp add: pow2_def powr_realpow [of 2 4, simplified])
  then show "16 \<le> pow2 128" using pow2_mono [of 4 128] by simp
qed

text \<open>
  Claim C9, as the specification states it: for every strictly positive \<open>alpha_q\<close> and
  \<open>beta_q\<close> the mean that the summary returns is strictly below 1. The code divides
  in double precision. At \<open>alpha_q = 99999998430674944\<close>, the float32 nearest to
  \<open>1e17\<close>, and \<open>beta_q = 1\<close>, both doubles within the float32 range, the sum
  \<open>alpha_q + beta_q\<close> rounds to \<open>alpha_q\<close> and the mean is exactly \<open>1.0\<close>.
\<close>

theorem mean_rounds_to_one:
  "float64 99999998430674944 = 99999998430674944
   \<and> float64 1 = 1
   \<and> pow2 (- 149) \<le> 99999998430674944 \<and> 99999998430674944 < pow2 128
   \<and> pow2 (- 149) \<le> 1 \<and> 1 < pow2 128
   \<and> fadd 99999998430674944 1 = 99999998430674944
   \<and> inferred_mean_f64 99999998430674944 1 = Inr 1"
  using float32_range_1e17 float32_range_small
  by (simp add: float64_1e17 float64_one inferred_mean_f64_def fdiv_def fadd_def
      float64_1e17_plus_1)

text \<open>
  Claim C9, amended: for strictly positive \<open>alpha_q\<close> and \<open>beta_q\<close> within the range
  of the float32 parameters they are read from, \<open>alpha_q\<close> a double, the summary as the
  code computes it in double precision returns a mean with \<open>0 < mean \<le> 1\<close> and a
  strictly positive standard deviation, and every exact result that it rounds lies in
  the normal range of a double. In exact arithmetic the mean is strictly between 0 and 1
  and the standard deviation strictly positive.
\<close>

theorem summary_f64_in_range:
  assumes "float64 alpha_q = alpha_q"
      and "pow2 (- 149) \<le> alpha_q" and "alpha_q < pow2 128"
      and "pow2 (- 149) \<le> beta_q" and "beta_q < pow2 128"
  shows "(\<exists>m s. inferred_mean_f64 alpha_q beta_q = Inr m
              \<and> inferred_std_f64 alpha_q beta_q = Inr s
              \<and> 0 < m \<and> m \<le> 1 \<and> 0 < s)
       \<and> rounds_normally alpha_q beta_q
       \<and> (\<exists>m s. inferred_mean alpha_q beta_q = Inr m
              \<and> inferred_std alpha_q beta_q = Inr s
              \<and> 0 < m \<and> m < 1 \<and> 0 < s)"
proof -
  have a: "0 < alpha_q" using assms(2) pow2_pos [of "- 149"] by linarith
  have b: "0 < beta_q" using assms(4) pow2_pos [of "- 149"] by linarith
  show ?thesis
    using summary_f64_values [OF a b assms(1)] summary_f64_normal [OF assms]
      summary_in_range_exact [OF a b]
    by blast
qed

theorem summary_f64_in_range_witness:
  "float64 12 = 12
   \<and> pow2 (- 149) \<le> 12 \<and> 12 < pow2 128 \<and> pow2 (- 149) \<le> 8 \<and> 8 < pow2 128
   \<and> (\<exists>m s. inferred_mean_f64 12 8 = Inr m \<and> inferred_std_f64 12 8 = Inr s
          \<and> 0 < m \<and> m \<le> 1 \<and> 0 < s)
   \<and> rounds_normally 12 8"
proof -
  have "float64 (of_int 12) = of_int 12" by (rule float64_of_int) simp_all
  then have 1: "float64 12 = 12" by simp
  have lo: "pow2 (- 149) \<le> 12" "pow2 (- 149) \<le> 8"
    using float32_range_small(1) by simp_all
  have hi: "12 < pow2 128" "8 < pow2 128"
    using float32_range_small(2) by simp_all
  show ?thesis
    using 1 lo hi summary_f64_in_range [OF 1 lo(1) hi(1) lo(2) hi(2)] by blast
qed

section \<open>Properties of the training loop\<close>

lemma length_range_py: "length (range_py n) = nat n"
  by (simp add: range_py_def)

lemma loop_body_runtime: "runtime (loop_body f c i) = snd (f (runtime c))"
  by (simp add: loop_body_def split: prod.split)

lemma loop_body_losses: "losses (loop_body f c i) = losses c @ [fst (f (runtime c))]"
  by (simp add: loop_body_def split: prod.split)

lemma foldl_loop_runtime:
  "runtime (foldl (loop_body f) c xs) = ((\<lambda>s. snd (f s)) ^^ length xs) (runtime c)"
proof (induction xs rule: rev_induct)
  case Nil
  show ?case by simp
next
  case (snoc x xs)
  then show ?case by (simp add: loop_body_runtime)
qed

lemma foldl_loop_losses:
  "losses (foldl (loop_body f) c xs)
     = losses c @ map (\<lambda>k. fst (f (((\<lambda>s. snd (f s)) ^^ k) (runtime c)))) [0..<length xs]"
proof (induction xs rule: rev_induct)
  case Nil
  show ?case by simp
next
  case (snoc x xs)
  then show ?case by (simp add: loop_body_losses foldl_loop_runtime)
qed

lemma training_loop_runtime:
  "runtime (training_loop f n s) = ((\<lambda>s. snd (f s)) ^^ nat n) s"
  by (simp add: training_loop_def foldl_loop_runtime length_range_py)

lemma training_loop_losses:
  "losses (training_loop f n s) = map (\<lambda>k. fst (f (((\<lambda>s. snd (f s)) ^^ k) s))) [0..<nat n]"
  by (simp add: training_loop_def foldl_loop_losses length_range_py)

text \<open>
  Claim C4. For every step count \<open>n_steps\<close> (a count, so not negative) and every
  \<open>svi.step\<close>, the loop performs exactly \<open>n_steps\<close> iterations: the final state is
  the \<open>n_steps\<close>-fold application of the step to the initial state, the \<open>k\<close>-th
  entry of \<open>losses\<close> is the loss that the step returned in iteration \<open>k\<close>, and
  \<open>losses\<close> has length exactly \<open>n_steps\<close>. Nothing stops the loop early.
\<close>

theorem loop_runs_n_steps:
  assumes "0 \<le> n_steps"
  shows "int (length (losses (training_loop step n_steps s))) = n_steps
       \<and> losses (training_loop step n_steps s)
           = map (\<lambda>k. fst (step (((\<lambda>s. snd (step s)) ^^ k) s))) [0..<nat n_steps]
       \<and> runtime (training_loop step n_steps s) = ((\<lambda>s. snd (step s)) ^^ nat n_steps) s"
  using assms by (simp add: training_loop_runtime training_loop_losses)

theorem loop_runs_n_steps_witness:
  "(0::int) \<le> 3
   \<and> int (length (losses (training_loop (\<lambda>s::nat. (real s, Suc s)) 3 0))) = 3
   \<and> losses (training_loop (\<lambda>s::nat. (real s, Suc s)) 3 0) = [0, 1, 2]
   \<and> runtime (training_loop (\<lambda>s::nat. (real s, Suc s)) 3 0) = 3"
  using loop_runs_n_steps [of 3 "\<lambda>s::nat. (real s, Suc s)" 0]
  by (simp add: numeral_3_eq_3 upt_rec)

section \<open>Properties of the guide, the model and the loss\<close>

lemma get_param_dom: "dom (snd (get_param st name init c)) = insert name (dom st)"
  by (auto simp: get_param_def split: option.splits)

lemma run_guide:
  assumes "get_param (param_store s) ''alpha_q'' ai Positive = (a, st1)"
      and "get_param st1 ''beta_q'' bi Positive = (b, st2)"
      and "draw L (Beta a b) (rng s) = (v, r')"
  shows "run L Map.empty (guide ai bi xs) (s, tr)
           = (s\<lparr>param_store := st2, rng := r'\<rparr>, tr @ [(''nu'', Latent (Beta a b) v)])"
  using assms by (simp add: guide_def)

lemma run_model_given:
  assumes "given ''nu'' = Some v"
  shows "run L given (model a0 b0 xs) (s, tr)
           = (s, tr @ [(''nu'', Latent (Beta a0 b0) v), (''obs'', Observed (Bernoulli v) xs)])"
  using assms by (simp add: model_def)

lemma run_model_drawn:
  assumes "given ''nu'' = None" and "draw L (Beta a0 b0) (rng s) = (v, r')"
  shows "run L given (model a0 b0 xs) (s, tr)
           = (s\<lparr>rng := r'\<rparr>,
              tr @ [(''nu'', Latent (Beta a0 b0) v), (''obs'', Observed (Bernoulli v) xs)])"
  using assms by (simp add: model_def)

lemma get_traces_example:
  assumes "get_param (param_store s) ''alpha_q'' ai Positive = (a, st1)"
      and "get_param st1 ''beta_q'' bi Positive = (b, st2)"
      and "draw L (Beta a b) (rng s) = (v, r')"
  shows "get_traces L (model a0 b0) (guide ai bi) xs s
           = (s\<lparr>param_store := st2, rng := r'\<rparr>,
              [(''nu'', Latent (Beta a b) v)],
              [(''nu'', Latent (Beta a0 b0) v), (''obs'', Observed (Bernoulli v) xs)])"
proof -
  have g: "run L Map.empty (guide ai bi xs) (s, [])
             = (s\<lparr>param_store := st2, rng := r'\<rparr>, [(''nu'', Latent (Beta a b) v)])"
    using run_guide [OF assms, of xs "[]"] by simp
  have "sampled [(''nu'', Latent (Beta a b) v)] ''nu'' = Some v"
    by (simp add: sampled_def)
  then have m: "run L (sampled [(''nu'', Latent (Beta a b) v)]) (model a0 b0 xs)
                  (s\<lparr>param_store := st2, rng := r'\<rparr>, [])
             = (s\<lparr>param_store := st2, rng := r'\<rparr>,
                [(''nu'', Latent (Beta a0 b0) v), (''obs'', Observed (Bernoulli v) xs)])"
    using run_model_given [of "sampled [(''nu'', Latent (Beta a b) v)]" v L a0 b0 xs _ "[]"]
    by simp
  show ?thesis
    by (simp add: get_traces_def g m)
qed

text \<open>
  Claim C7. The guide takes the data, as the model does, and never reads it: for any two
  data vectors the guide is the same program. So whatever evaluates it, from the same
  parameter store and random generator, sees the same declared distribution
  \<open>Beta(alpha_q, beta_q)\<close> for \<open>nu\<close> and produces the same sample: every function
  of the program has the same value for both data vectors.
\<close>

theorem guide_ignores_data:
  "guide ai bi xs = guide ai bi ys
   \<and> evaluate (guide ai bi xs) = evaluate (guide ai bi ys)"
  by (simp add: guide_def)

lemma run_guide_ignores_data:
  "run L given (guide ai bi xs) st = run L given (guide ai bi ys) st"
  by (simp add: guide_def)

lemma loss_example:
  assumes "get_param (param_store s) ''alpha_q'' ai Positive = (a, st1)"
      and "get_param st1 ''beta_q'' bi Positive = (b, st2)"
      and "draw L (Beta a b) (rng s) = (nu, r')"
  shows "evaluate_loss L (model a0 b0) (guide ai bi) xs s
           = (- (log_prob L (Beta a0 b0) nu
                 + sum_list (map (log_prob L (Bernoulli nu)) xs)
                 - log_prob L (Beta a b) nu),
              s\<lparr>param_store := st2, rng := r'\<rparr>)"
    and "fst (svi_step L (model a0 b0) (guide ai bi) xs s)
           = - (log_prob L (Beta a0 b0) nu
                + sum_list (map (log_prob L (Bernoulli nu)) xs)
                - log_prob L (Beta a b) nu)"
    and "rng (snd (svi_step L (model a0 b0) (guide ai bi) xs s)) = r'"
  by (simp_all add: evaluate_loss_def svi_step_def get_traces_example [OF assms]
      trace_log_prob_def split: prod.split)

text \<open>
  Claim C3. Let the guide's parameters \<open>alpha_q\<close> and \<open>beta_q\<close> be any positive
  numbers: the store holds their logarithms. For every data vector, one evaluation of the
  loss draws a single \<open>nu\<close>, from \<open>Beta(alpha_q, beta_q)\<close>, and returns the
  negation of \<open>log Beta(nu; alpha0, beta0)\<close> plus the sum over the data of
  \<open>log Bernoulli(d; nu)\<close> minus \<open>log Beta(nu; alpha_q, beta_q)\<close>. The model's terms
  are evaluated at the \<open>nu\<close> that the guide sampled: the generator has advanced by that
  one draw and no other, and nothing else of the state has changed. The loss that
  \<open>svi.step\<close> returns is the same number.
\<close>

theorem elbo_single_sample:
  assumes "0 < alpha_q" and "0 < beta_q"
      and "param_store s ''alpha_q'' = Some (ln alpha_q)"
      and "param_store s ''beta_q'' = Some (ln beta_q)"
      and "draw L (Beta alpha_q beta_q) (rng s) = (nu, r')"
  shows "evaluate_loss L (model a0 b0) (guide ai bi) xs s
           = (- (log_prob L (Beta a0 b0) nu
                 + sum_list (map (log_prob L (Bernoulli nu)) xs)
                 - log_prob L (Beta alpha_q beta_q) nu),
              s\<lparr>rng := r'\<rparr>)
       \<and> fst (svi_step L (model a0 b0) (guide ai bi) xs s)
           = - (log_prob L (Beta a0 b0) nu
                + sum_list (map (log_prob L (Bernoulli nu)) xs)
                - log_prob L (Beta alpha_q beta_q) nu)
       \<and> rng (snd (svi_step L (model a0 b0) (guide ai bi) xs s)) = r'"
proof -
  have 1: "get_param (param_store s) ''alpha_q'' ai Positive = (alpha_q, param_store s)"
    using assms(1,3) by (simp add: get_param_def)
  have 2: "get_param (param_store s) ''beta_q'' bi Positive = (beta_q, param_store s)"
    using assms(2,4) by (simp add: get_param_def)
  show ?thesis
    using loss_example [OF 1 2 assms(5), of a0 b0 xs] by simp
qed

theorem elbo_single_sample_witness:
  "(0::real) < 12 \<and> (0::real) < 8
   \<and> draw fixed_lib (Beta 12 8) 0 = (1 / 2, Suc 0)
   \<and> evaluate_loss fixed_lib (model 10 10) (guide 10 10) [1, 0]
        \<lparr>param_store = [''alpha_q'' \<mapsto> ln 12, ''beta_q'' \<mapsto> ln 8], rng = 0, optim = 0\<rparr>
       = (- (log_prob fixed_lib (Beta 10 10) (1 / 2)
             + sum_list (map (log_prob fixed_lib (Bernoulli (1 / 2))) [1, 0])
             - log_prob fixed_lib (Beta 12 8) (1 / 2)),
          \<lparr>param_store = [''alpha_q'' \<mapsto> ln 12, ''beta_q'' \<mapsto> ln 8],
           rng = Suc 0, optim = 0\<rparr>)"
proof -
  let ?st = "[''alpha_q'' \<mapsto> ln (12::real), ''beta_q'' \<mapsto> ln 8]"
  let ?s = "\<lparr>param_store = ?st, rng = 0::nat, optim = 0::nat\<rparr>"
  have 1: "param_store ?s ''alpha_q'' = Some (ln 12)"
    by simp
  have 2: "param_store ?s ''beta_q'' = Some (ln 8)"
    by simp
  have 3: "draw fixed_lib (Beta 12 8) (rng ?s) = (1 / 2, Suc 0)"
    by (simp add: fixed_lib_def)
  show ?thesis
    using 3 elbo_single_sample [OF _ _ 1 2 3, of 10 10 10 10 "[1, 0]"] by simp
qed

section \<open>Properties of the parameter store during training\<close>

lemma dom_updated: "dom (\<lambda>name. map_option (\<lambda>_. u name) (st name)) = dom st"
  by (auto simp: dom_def)

lemma svi_step_store:
  "dom (param_store (snd (svi_step L mdl gde xs s)))
     = dom (param_store (fst (get_traces L mdl gde xs s)))"
  by (simp add: svi_step_def dom_updated split: prod.split)

lemma get_traces_example_dom:
  "dom (param_store (fst (get_traces L (model a0 b0) (guide ai bi) xs s)))
     = insert ''alpha_q'' (insert ''beta_q'' (dom (param_store s)))"
proof -
  obtain a st1 where 1: "get_param (param_store s) ''alpha_q'' ai Positive = (a, st1)"
    by (cases "get_param (param_store s) ''alpha_q'' ai Positive")
  obtain b st2 where 2: "get_param st1 ''beta_q'' bi Positive = (b, st2)"
    by (cases "get_param st1 ''beta_q'' bi Positive")
  obtain v r' where 3: "draw L (Beta a b) (rng s) = (v, r')"
    by (cases "draw L (Beta a b) (rng s)")
  have "dom st1 = insert ''alpha_q'' (dom (param_store s))"
    using get_param_dom [of "param_store s" "''alpha_q''" ai Positive] 1 by simp
  moreover have "dom st2 = insert ''beta_q'' (dom st1)"
    using get_param_dom [of st1 "''beta_q''" bi Positive] 2 by simp
  ultimately show ?thesis
    by (auto simp: get_traces_example [OF 1 2 3])
qed

lemma svi_step_example_dom:
  "dom (param_store (snd (svi_step L (model a0 b0) (guide ai bi) xs s)))
     = insert ''alpha_q'' (insert ''beta_q'' (dom (param_store s)))"
  by (simp only: svi_step_store get_traces_example_dom)

lemma steps_example_dom:
  "dom (param_store (((\<lambda>s. snd (svi_step L (model a0 b0) (guide ai bi) xs s)) ^^ Suc k) s))
     = insert ''alpha_q'' (insert ''beta_q'' (dom (param_store s)))"
  by (induction k) (auto simp: svi_step_example_dom)

lemma training_loop_example_dom:
  assumes "0 < k"
  shows "dom (param_store (runtime
           (training_loop (svi_step L (model a0 b0) (guide ai bi) xs) k s)))
           = insert ''alpha_q'' (insert ''beta_q'' (dom (param_store s)))"
proof -
  obtain j where "nat k = Suc j"
    using assms by (cases "nat k") simp_all
  then show ?thesis
    by (simp only: training_loop_runtime steps_example_dom)
qed

lemma run_guide_registers:
  "dom (param_store (fst (run L given (guide ai bi xs) (s, tr))))
     = insert ''alpha_q'' (insert ''beta_q'' (dom (param_store s)))"
proof -
  obtain a st1 where 1: "get_param (param_store s) ''alpha_q'' ai Positive = (a, st1)"
    by (cases "get_param (param_store s) ''alpha_q'' ai Positive")
  obtain b st2 where 2: "get_param st1 ''beta_q'' bi Positive = (b, st2)"
    by (cases "get_param st1 ''beta_q'' bi Positive")
  have "dom st1 = insert ''alpha_q'' (dom (param_store s))"
    using get_param_dom [of "param_store s" "''alpha_q''" ai Positive] 1 by simp
  moreover have "dom st2 = insert ''beta_q'' (dom st1)"
    using get_param_dom [of st1 "''beta_q''" bi Positive] 2 by simp
  ultimately show ?thesis
    using 1 2 by (auto simp: guide_def split: option.split prod.split)
qed

lemma run_model_registers_none:
  "param_store (fst (run L given (model a0 b0 xs) (s, tr))) = param_store s"
  by (simp add: model_def split: option.split prod.split)

lemma pyro_param_stored:
  assumes "name \<in> dom (param_store s)"
  shows "\<exists>v. pyro_param s name = Inr v \<and> 0 < v"
  using assms by (auto simp: pyro_param_def)

text \<open>
  Claim C10, as the specification states it: throughout a training run the parameters in
  the store are exactly \<open>alpha_q\<close> and \<open>beta_q\<close>, and no training step creates a
  parameter. The example clears the store first, and the guide's calls of
  \<open>pyro.param\<close> run inside \<open>svi.step\<close>: with the constants and data of the second
  notebook the store is empty when the loop starts and still empty after a run of no
  steps, and the first step creates both parameters.
\<close>

theorem first_step_creates_params:
  "dom (param_store
         ((clear_param_store start)\<lparr>optim := new_adam fixed_lib (cfg_adam notebook_c)\<rparr>)) = {}
   \<and> dom (param_store (runtime
         (training_loop (svi_step fixed_lib (model 10 10) (guide 10 10) (cfg_data notebook_c)) 0
            ((clear_param_store start)\<lparr>optim := new_adam fixed_lib (cfg_adam notebook_c)\<rparr>))))
       = {}
   \<and> dom (param_store (runtime
         (training_loop (svi_step fixed_lib (model 10 10) (guide 10 10) (cfg_data notebook_c)) 1
            ((clear_param_store start)\<lparr>optim := new_adam fixed_lib (cfg_adam notebook_c)\<rparr>))))
       = {''alpha_q'', ''beta_q''}"
proof -
  let ?step = "svi_step fixed_lib (model 10 10) (guide 10 10) (cfg_data notebook_c)"
  let ?s = "(clear_param_store start)\<lparr>optim := new_adam fixed_lib (cfg_adam notebook_c)\<rparr>"
  have 0: "dom (param_store ?s) = {}"
    by (simp add: clear_param_store_def)
  have 1: "dom (param_store (runtime (training_loop ?step 0 ?s))) = {}"
    by (simp add: training_loop_runtime clear_param_store_def)
  have 2: "dom (param_store (runtime (training_loop ?step 1 ?s))) = {''alpha_q'', ''beta_q''}"
    using training_loop_example_dom [of 1 fixed_lib 10 10 10 10 "cfg_data notebook_c" ?s]
    by (simp add: clear_param_store_def)
  show ?thesis
    using 0 1 2 by blast
qed

text \<open>
  Claim C10, amended: the example clears the store, so the store is empty when the loop
  starts. The first training step registers \<open>alpha_q\<close> and \<open>beta_q\<close>; after it and
  after every later step (\<open>k\<close> steps, \<open>k\<close> at least one), and so after the run, the
  parameters in the store are exactly \<open>alpha_q\<close> and \<open>beta_q\<close>, and a further step
  leaves the set as it is. The guide registers these two and nothing else, the model
  registers none, and a training step removes no parameter and creates none but these
  two where they are missing.
\<close>

theorem param_store_keys:
  assumes "0 < k"
  shows "dom (param_store ((clear_param_store s)\<lparr>optim := new_adam L ap\<rparr>)) = {}
       \<and> dom (param_store (runtime
           (training_loop (svi_step L (model a0 b0) (guide ai bi) xs) k
              ((clear_param_store s)\<lparr>optim := new_adam L ap\<rparr>))))
           = {''alpha_q'', ''beta_q''}
       \<and> dom (param_store (runtime
           (training_loop (svi_step L (model a0 b0) (guide ai bi) xs) (k + 1)
              ((clear_param_store s)\<lparr>optim := new_adam L ap\<rparr>))))
           = dom (param_store (runtime
               (training_loop (svi_step L (model a0 b0) (guide ai bi) xs) k
                  ((clear_param_store s)\<lparr>optim := new_adam L ap\<rparr>))))
       \<and> dom (param_store (fst (run L given (guide ai bi xs) (s', tr))))
           = {''alpha_q'', ''beta_q''} \<union> dom (param_store s')
       \<and> param_store (fst (run L given (model a0 b0 xs) (s', tr))) = param_store s'
       \<and> dom (param_store (snd (svi_step L (model a0 b0) (guide ai bi) xs s')))
           = {''alpha_q'', ''beta_q''} \<union> dom (param_store s')"
proof -
  have k1: "0 < k + 1" using assms by simp
  show ?thesis
    by (simp add: training_loop_example_dom [OF assms] training_loop_example_dom [OF k1]
        run_guide_registers run_model_registers_none svi_step_example_dom
        clear_param_store_def)
qed

theorem param_store_keys_witness:
  "(0::int) < 3
   \<and> dom (param_store (runtime
        (training_loop (svi_step fixed_lib (model 10 10) (guide 10 10) [1, 0]) 3
           ((clear_param_store start)\<lparr>optim := new_adam fixed_lib (cfg_adam notebook_c)\<rparr>))))
       = {''alpha_q'', ''beta_q''}
   \<and> dom (param_store (runtime
        (training_loop (svi_step fixed_lib (model 10 10) (guide 10 10) [1, 0]) (3 + 1)
           ((clear_param_store start)\<lparr>optim := new_adam fixed_lib (cfg_adam notebook_c)\<rparr>))))
       = {''alpha_q'', ''beta_q''}"
  using param_store_keys [where k = 3 and L = fixed_lib and xs = "[1, 0]" and s = start
      and ai = 10 and bi = 10 and ?a0.0 = 10 and ?b0.0 = 10 and ap = "cfg_adam notebook_c"]
  by simp

text \<open>
  Claim C5. With positive initial values the guide starts from them: evaluated on the
  cleared store it registers \<open>alpha_q\<close> and \<open>beta_q\<close> with the initial values. After
  every optimizer step, from any state and for any library, data and prior, both
  parameters are in the store and strictly positive, and so they are after \<open>k\<close> steps
  of the loop for every \<open>k\<close> of at least one. The store keeps the unconstrained value
  and hands out its exponential, whatever the optimizer has made of it.
\<close>

theorem params_stay_positive:
  assumes "0 < ai" and "0 < bi"
  shows "pyro_param (fst (run L Map.empty (guide ai bi xs) (clear_param_store s, [])))
           ''alpha_q'' = Inr ai
       \<and> pyro_param (fst (run L Map.empty (guide ai bi xs) (clear_param_store s, [])))
           ''beta_q'' = Inr bi
       \<and> (\<exists>a b. pyro_param (snd (svi_step L (model a0 b0) (guide ai bi) xs s')) ''alpha_q''
                  = Inr a
              \<and> pyro_param (snd (svi_step L (model a0 b0) (guide ai bi) xs s')) ''beta_q''
                  = Inr b
              \<and> 0 < a \<and> 0 < b)
       \<and> (0 < k \<longrightarrow>
            (\<exists>a b. pyro_param (runtime (training_loop
                       (svi_step L (model a0 b0) (guide ai bi) xs) k s')) ''alpha_q'' = Inr a
                \<and> pyro_param (runtime (training_loop
                       (svi_step L (model a0 b0) (guide ai bi) xs) k s')) ''beta_q'' = Inr b
                \<and> 0 < a \<and> 0 < b))"
proof -
  let ?step = "svi_step L (model a0 b0) (guide ai bi) xs"
  obtain v r' where d: "draw L (Beta ai bi) (rng (clear_param_store s)) = (v, r')"
    by (cases "draw L (Beta ai bi) (rng (clear_param_store s))")
  have 1: "get_param (param_store (clear_param_store s)) ''alpha_q'' ai Positive
             = (ai, [''alpha_q'' \<mapsto> ln ai])"
    using assms(1) by (simp add: get_param_def clear_param_store_def)
  have 2: "get_param [''alpha_q'' \<mapsto> ln ai] ''beta_q'' bi Positive
             = (bi, [''alpha_q'' \<mapsto> ln ai, ''beta_q'' \<mapsto> ln bi])"
    using assms(2) by (simp add: get_param_def)
  have first:
    "pyro_param (fst (run L Map.empty (guide ai bi xs) (clear_param_store s, [])))
       ''alpha_q'' = Inr ai"
    "pyro_param (fst (run L Map.empty (guide ai bi xs) (clear_param_store s, [])))
       ''beta_q'' = Inr bi"
    using assms by (simp_all add: run_guide [OF 1 2 d] pyro_param_def)
  have one: "\<exists>a b. pyro_param (snd (?step s')) ''alpha_q'' = Inr a
               \<and> pyro_param (snd (?step s')) ''beta_q'' = Inr b \<and> 0 < a \<and> 0 < b"
    using pyro_param_stored [of "''alpha_q''" "snd (?step s')"]
          pyro_param_stored [of "''beta_q''" "snd (?step s')"]
    by (simp only: svi_step_example_dom) blast
  have loop: "\<exists>a b. pyro_param (runtime (training_loop ?step k s')) ''alpha_q'' = Inr a
                \<and> pyro_param (runtime (training_loop ?step k s')) ''beta_q'' = Inr b
                \<and> 0 < a \<and> 0 < b" if "0 < k"
    using pyro_param_stored [of "''alpha_q''" "runtime (training_loop ?step k s')"]
          pyro_param_stored [of "''beta_q''" "runtime (training_loop ?step k s')"]
    by (simp only: training_loop_example_dom [OF that]) blast
  show ?thesis
    using first one loop by blast
qed

theorem params_stay_positive_witness:
  "(0::real) < 10 \<and> (0::real) < 10 \<and> (0::int) < 3
   \<and> pyro_param (fst (run fixed_lib Map.empty (guide 10 10 [1, 0])
                         (clear_param_store start, []))) ''alpha_q'' = Inr 10
   \<and> pyro_param (fst (run fixed_lib Map.empty (guide 10 10 [1, 0])
                         (clear_param_store start, []))) ''beta_q'' = Inr 10
   \<and> (\<exists>a b. pyro_param (runtime (training_loop
                 (svi_step fixed_lib (model 10 10) (guide 10 10) [1, 0]) 3 start))
               ''alpha_q'' = Inr a
          \<and> pyro_param (runtime (training_loop
                 (svi_step fixed_lib (model 10 10) (guide 10 10) [1, 0]) 3 start))
               ''beta_q'' = Inr b
          \<and> 0 < a \<and> 0 < b)"
  using params_stay_positive [where ai = 10 and bi = 10 and k = 3 and L = fixed_lib
      and xs = "[1, 0]" and s = start and s' = start and ?a0.0 = 10 and ?b0.0 = 10]
  by simp

section \<open>Properties of a whole run\<close>

lemma fresh_start:
  assumes "rng s1 = rng s2"
  shows "(clear_param_store s1)\<lparr>optim := x\<rparr> = (clear_param_store s2)\<lparr>optim := x\<rparr>"
  using assms by (cases s1, cases s2) (simp add: clear_param_store_def)

lemma svi_example_refused:
  assumes "new_svi L mdl gde = Some e"
  shows "svi_example L mdl gde ap n xs s = Inl e"
  using assms by (simp add: svi_example_def)

lemma svi_example_returns:
  assumes "new_svi L mdl gde = None"
      and "''alpha_q'' \<in> dom (param_store (runtime (training_loop (svi_step L mdl gde xs) n
                ((clear_param_store s)\<lparr>optim := new_adam L ap\<rparr>))))"
      and "''beta_q'' \<in> dom (param_store (runtime (training_loop (svi_step L mdl gde xs) n
                ((clear_param_store s)\<lparr>optim := new_adam L ap\<rparr>))))"
  shows "\<exists>f. svi_example L mdl gde ap n xs s = Inr f
           \<and> loss_trace f = losses (training_loop (svi_step L mdl gde xs) n
                ((clear_param_store s)\<lparr>optim := new_adam L ap\<rparr>))"
  using assms by (auto simp: svi_example_def pyro_param_def Let_def)

lemma bernoulli_example_returns:
  assumes "new_svi L (model (cfg_alpha0 cfg) (cfg_beta0 cfg))
             (guide (cfg_alpha_init cfg) (cfg_beta_init cfg)) = None"
      and "0 < cfg_n_steps cfg"
  shows "\<exists>f. bernoulli_example L cfg s = Inr f
           \<and> int (length (loss_trace f)) = cfg_n_steps cfg"
proof -
  let ?step = "svi_step L (model (cfg_alpha0 cfg) (cfg_beta0 cfg))
                 (guide (cfg_alpha_init cfg) (cfg_beta_init cfg)) (cfg_data cfg)"
  let ?c = "training_loop ?step (cfg_n_steps cfg)
              ((clear_param_store s)\<lparr>optim := new_adam L (cfg_adam cfg)\<rparr>)"
  have "dom (param_store (runtime ?c)) = {''alpha_q'', ''beta_q''}"
    by (simp add: training_loop_example_dom [OF assms(2)] clear_param_store_def)
  then obtain f
    where f: "bernoulli_example L cfg s = Inr f" "loss_trace f = losses ?c"
    using svi_example_returns [where L = L
        and mdl = "model (cfg_alpha0 cfg) (cfg_beta0 cfg)"
        and gde = "guide (cfg_alpha_init cfg) (cfg_beta_init cfg)"
        and xs = "cfg_data cfg" and n = "cfg_n_steps cfg" and s = s and ap = "cfg_adam cfg"]
      assms(1)
    by (auto simp: bernoulli_example_def)
  have "int (length (losses ?c)) = cfg_n_steps cfg"
    using assms(2) by (simp add: training_loop_losses)
  with f show ?thesis
    by auto
qed

lemma notebook_runs:
  assumes "\<And>mdl gde. new_svi L mdl gde = None"
  shows "\<exists>f. bernoulli_example L notebook_a s = Inr f \<and> int (length (loss_trace f)) = 50000"
    and "\<exists>f. bernoulli_example L notebook_c s = Inr f \<and> int (length (loss_trace f)) = 1000"
proof -
  have a: "cfg_n_steps notebook_a = 50000"
    by (simp add: notebook_a_def)
  have c: "cfg_n_steps notebook_c = 1000"
    by (simp add: notebook_c_def)
  show "\<exists>f. bernoulli_example L notebook_a s = Inr f \<and> int (length (loss_trace f)) = 50000"
    using bernoulli_example_returns [of L notebook_a s] assms by (simp add: a)
  show "\<exists>f. bernoulli_example L notebook_c s = Inr f \<and> int (length (loss_trace f)) = 1000"
    using bernoulli_example_returns [of L notebook_c s] assms by (simp add: c)
qed

text \<open>
  The example takes nothing but the state of the random generator from the state before
  it: it clears the parameter store and builds a new optimizer. Two runs with the same
  library, data and constants and the same generator state end alike, whatever parameters
  and optimizer state the earlier work has left behind. Values are real numbers here; the
  bits of a floating-point number are outside this development.
\<close>

lemma run_takes_generator_only:
  assumes "rng s1 = rng s2"
  shows "bernoulli_example L cfg s1 = bernoulli_example L cfg s2"
  by (simp only: bernoulli_example_def svi_example_def fresh_start [OF assms])

end
